theory Spec2Isabelle
  imports Main "HOL-Library.Sublist"
begin

section \<open>Python strings\<close>

text \<open>
  Python strings are modelled as \<^typ>\<open>string\<close>: a character is a code point below 256.
  The functions below are the string methods that \<^verbatim>\<open>pip_search.py\<close> calls.
\<close>

definition isspace :: "char \<Rightarrow> bool" where
  \<comment> \<open>\<^verbatim>\<open>str.isspace\<close>, which also decides \<^verbatim>\<open>\s\<close>, \<^verbatim>\<open>str.split()\<close> and \<^verbatim>\<open>str.strip()\<close>\<close>
  "isspace c = ((of_char c :: nat) \<in> set [9, 10, 11, 12, 13, 28, 29, 30, 31, 32, 133, 160])"

fun split_ws :: "string \<Rightarrow> string \<Rightarrow> string list" where
  "split_ws tok [] = (if tok = [] then [] else [tok])"
| "split_ws tok (c # cs) =
     (if isspace c then (if tok = [] then split_ws [] cs else tok # split_ws [] cs)
      else split_ws (tok @ [c]) cs)"

definition py_split :: "string \<Rightarrow> string list" where
  \<comment> \<open>\<^verbatim>\<open>s.split()\<close>: the maximal runs of non-whitespace characters\<close>
  "py_split s = split_ws [] s"

definition py_strip :: "string \<Rightarrow> string" where
  \<comment> \<open>\<^verbatim>\<open>s.strip()\<close>\<close>
  "py_strip s = dropWhile isspace (rev (dropWhile isspace (rev s)))"

fun sub_ws :: "bool \<Rightarrow> string \<Rightarrow> string" where
  "sub_ws in_run [] = []"
| "sub_ws in_run (c # cs) =
     (if isspace c then (if in_run then sub_ws True cs else CHR '' '' # sub_ws True cs)
      else c # sub_ws False cs)"

definition re_sub_ws :: "string \<Rightarrow> string" where
  \<comment> \<open>\<^verbatim>\<open>re.sub(r"\s+", " ", s)\<close>: every run of whitespace becomes one space\<close>
  "re_sub_ws s = sub_ws False s"

fun py_in :: "string \<Rightarrow> string \<Rightarrow> bool" where
  \<comment> \<open>\<^verbatim>\<open>sub in s\<close>\<close>
  "py_in sub [] = (sub = [])"
| "py_in sub (c # cs) = (prefix sub (c # cs) \<or> py_in sub cs)"

fun py_replace :: "string \<Rightarrow> string \<Rightarrow> string \<Rightarrow> string" where
  \<comment> \<open>\<^verbatim>\<open>s.replace(old, new)\<close> for a non-empty \<open>old\<close>: every occurrence, left to right\<close>
  "py_replace old new [] = []"
| "py_replace old new (c # cs) =
     (if old \<noteq> [] \<and> prefix old (c # cs)
      then new @ py_replace old new (drop (length old) (c # cs))
      else c # py_replace old new cs)"

fun split_sep :: "string \<Rightarrow> string \<Rightarrow> string \<Rightarrow> string list" where
  "split_sep sep cur [] = [cur]"
| "split_sep sep cur (c # cs) =
     (if sep \<noteq> [] \<and> prefix sep (c # cs)
      then cur # split_sep sep [] (drop (length sep) (c # cs))
      else split_sep sep (cur @ [c]) cs)"

definition py_split_on :: "string \<Rightarrow> string \<Rightarrow> string list" where
  \<comment> \<open>\<^verbatim>\<open>s.split(sep)\<close> for a non-empty \<open>sep\<close>\<close>
  "py_split_on sep s = split_sep sep [] s"

definition py_rstrip :: "string \<Rightarrow> string \<Rightarrow> string" where
  \<comment> \<open>\<^verbatim>\<open>s.rstrip(chars)\<close>\<close>
  "py_rstrip chars s = rev (dropWhile (\<lambda>c. c \<in> set chars) (rev s))"

section \<open>The proof-of-work solver\<close>

text \<open>
  Lines 97 to 107 of \<^verbatim>\<open>search\<close>. The digest \<^verbatim>\<open>hashlib.sha256(c.encode()).hexdigest()\<close>
  belongs to the standard library; the solver takes it as the parameter \<open>H\<close>.
\<close>

definition ascii_lowercase :: string where
  "ascii_lowercase = ''abcdefghijklmnopqrstuvwxyz''"

definition ascii_uppercase :: string where
  "ascii_uppercase = ''ABCDEFGHIJKLMNOPQRSTUVWXYZ''"

definition ascii_letters :: string where
  "ascii_letters = ascii_lowercase @ ascii_uppercase"

definition digits :: string where
  "digits = ''0123456789''"

definition characters :: string where
  "characters = ascii_letters @ digits"

fun inner_loop :: "(string \<Rightarrow> string) \<Rightarrow> string \<Rightarrow> string \<Rightarrow> char \<Rightarrow> string \<Rightarrow> string \<Rightarrow> string" where
  "inner_loop H base hash c1 answer [] = answer"
| "inner_loop H base hash c1 answer (c2 # cs) =
     (let c = base @ [c1] @ [c2]
      in if H c = hash then [c1] @ [c2]
         else inner_loop H base hash c1 answer cs)"

fun outer_loop :: "(string \<Rightarrow> string) \<Rightarrow> string \<Rightarrow> string \<Rightarrow> string \<Rightarrow> string \<Rightarrow> string" where
  "outer_loop H base hash answer [] = answer"
| "outer_loop H base hash answer (c1 # cs) =
     (let answer' = inner_loop H base hash c1 answer characters
      in if answer' \<noteq> [] then answer'
         else outer_loop H base hash answer' cs)"

definition solve :: "(string \<Rightarrow> string) \<Rightarrow> string \<Rightarrow> string \<Rightarrow> string" where
  "solve H base hash = outer_loop H base hash [] characters"

text \<open>The enumeration order of the two loops: \<open>c1\<close> outside, \<open>c2\<close> inside.\<close>

definition pairs_from :: "string \<Rightarrow> string list" where
  "pairs_from cs = concat (map (\<lambda>c1. map (\<lambda>c2. [c1, c2]) characters) cs)"

definition keyspace :: "string list" where
  "keyspace = pairs_from characters"

section \<open>Values, exceptions and the collaborators\<close>

text \<open>
  Python values that cross the model's boundary: parsed JSON, request parameters, the
  attributes of the options object and the enrichment counts.
\<close>

datatype pyval =
  PNone | PBool bool | PInt int | PStr string | PList "pyval list" | PDict "(string \<times> pyval) list"

fun truthy :: "pyval \<Rightarrow> bool" where
  "truthy PNone = False"
| "truthy (PBool b) = b"
| "truthy (PInt n) = (n \<noteq> 0)"
| "truthy (PStr s) = (s \<noteq> [])"
| "truthy (PList xs) = (xs \<noteq> [])"
| "truthy (PDict kvs) = (kvs \<noteq> [])"

text \<open>
  The exceptions that the modelled code can raise. \<open>ProtocolError\<close> is the typed error
  that the specification names; the source defines no such class and raises it nowhere.
\<close>

datatype py_error =
  AttributeError | IndexError | KeyError | TypeError | ValueError | NameError
  | JSONDecodeError | ProtocolError

type_synonym auth = "string option \<times> string option"

datatype request =
  Get string "(string \<times> pyval) list" "(string \<times> string) list" "auth option"
  | Post string pyval

datatype response = Response (status_code: int) (rtext: string)

datatype datetime = Datetime int int int int int int int

text \<open>
  The libraries that \<^verbatim>\<open>pip_search.py\<close> imports are parameters of the model:
  \<^item> \<open>http log req\<close> is the response of the \<^verbatim>\<open>requests.Session\<close> to \<open>req\<close> after the
    requests \<open>log\<close> (cookies and server state are functions of that history);
  \<^item> \<open>findall_script\<close>, \<open>findall_pow\<close> are \<^verbatim>\<open>pattern.findall\<close> for the two compiled patterns;
  \<^item> \<open>sha256_hexdigest s\<close> is \<^verbatim>\<open>hashlib.sha256(s.encode()).hexdigest()\<close>;
  \<^item> \<open>soup_select text css\<close> and \<open>soup_select_one text css\<close> are \<^verbatim>\<open>select\<close> and
    \<^verbatim>\<open>select_one\<close> of \<^verbatim>\<open>BeautifulSoup(text, "html.parser")\<close>; \<open>tag_select_one\<close>, \<open>tag_find\<close>,
    \<open>tag_text\<close>, \<open>tag_get\<close> are the methods of a \<^verbatim>\<open>Tag\<close> (\<open>None\<close> is a missing element
    or attribute);
  \<^item> \<open>urljoin\<close>, \<open>strptime\<close> (\<open>None\<close> is \<^verbatim>\<open>ValueError\<close>), \<open>response_json\<close> (\<^verbatim>\<open>r.json()\<close> of a
    body, \<open>None\<close> is a decoding error) and \<open>getenv\<close> are the standard functions.
\<close>

record 'e env =
  http :: "request list \<Rightarrow> request \<Rightarrow> response"
  findall_script :: "string \<Rightarrow> string list"
  findall_pow :: "string \<Rightarrow> (string \<times> string \<times> string \<times> string \<times> string) list"
  sha256_hexdigest :: "string \<Rightarrow> string"
  soup_select :: "string \<Rightarrow> string \<Rightarrow> 'e list"
  soup_select_one :: "string \<Rightarrow> string \<Rightarrow> 'e option"
  tag_select_one :: "'e \<Rightarrow> string \<Rightarrow> 'e option"
  tag_find :: "'e \<Rightarrow> string \<Rightarrow> 'e option"
  tag_text :: "'e \<Rightarrow> string"
  tag_get :: "'e \<Rightarrow> string \<Rightarrow> string option"
  urljoin :: "string \<Rightarrow> string \<Rightarrow> string"
  strptime :: "string \<Rightarrow> string \<Rightarrow> datetime option"
  response_json :: "string \<Rightarrow> pyval option"
  getenv :: "string \<Rightarrow> string option"

definition send :: "'e env \<Rightarrow> request list \<Rightarrow> request \<Rightarrow> response \<times> request list" where
  \<comment> \<open>one call of \<^verbatim>\<open>session.get\<close> or \<^verbatim>\<open>session.post\<close>\<close>
  "send E log req = (http E log req, log @ [req])"

section \<open>Config and Package\<close>

definition api_url :: string where
  "api_url = ''https://pypi.org/search/''"

definition page_size :: nat where
  "page_size = 2"

definition link_defualt_format :: "string \<Rightarrow> string" where
  \<comment> \<open>\<^verbatim>\<open>"https://pypi.org/project/{package.name}".format(package=self)\<close>\<close>
  "link_defualt_format package_name = ''https://pypi.org/project/'' @ package_name"

record package =
  name :: string
  version :: string
  released :: string
  description :: string
  link :: string
  released_date :: datetime
  stars :: pyval
  forks :: pyval
  watchers :: pyval
  github_link :: string
  info_set :: bool

definition Package_init ::
  "'e env \<Rightarrow> string \<Rightarrow> string \<Rightarrow> string \<Rightarrow> string \<Rightarrow> string option \<Rightarrow> py_error + package" where
  \<comment> \<open>the dataclass constructor followed by \<^verbatim>\<open>__post_init__\<close>; \<^verbatim>\<open>link or default\<close> takes the
      default for \<^verbatim>\<open>None\<close> and for the empty string\<close>
  "Package_init E nm ver rel descr lnk =
     (let l = (case lnk of None \<Rightarrow> link_defualt_format nm
               | Some s \<Rightarrow> if s \<noteq> [] then s else link_defualt_format nm)
      in case strptime E rel ''%Y-%m-%dT%H:%M:%S%z'' of
           None \<Rightarrow> Inl ValueError
         | Some d \<Rightarrow> Inr \<lparr>name = nm, version = ver, released = rel, description = descr,
                           link = l, released_date = d, stars = PInt 0, forks = PInt 0,
                           watchers = PInt 0, github_link = [], info_set = False\<rparr>)"

text \<open>
  The dict \<^verbatim>\<open>info\<close> of \<^verbatim>\<open>get_repo_info\<close>. It has five fixed keys, so it is never empty:
  \<^verbatim>\<open>if info\<close> is true exactly when \<^verbatim>\<open>info\<close> is not \<^verbatim>\<open>None\<close>.
\<close>

record repo_info =
  gh_stars :: pyval
  gh_forks :: pyval
  gh_watchers :: pyval
  gh_set :: bool
  gh_link :: string

definition set_gh_info :: "package \<Rightarrow> repo_info \<Rightarrow> package" where
  "set_gh_info self info =
     self\<lparr>stars := gh_stars info, forks := gh_forks info, watchers := gh_watchers info,
          github_link := gh_link info, info_set := True\<rparr>"

section \<open>The repository enricher\<close>

record links =
  github :: string
  homepage :: string

definition links_of :: "string \<Rightarrow> links option" where
  \<comment> \<open>lines 221 to 226 of \<^verbatim>\<open>get_links\<close>\<close>
  "links_of hp =
     (if py_in ''github'' hp
      then Some \<lparr>github = py_replace ''/tags'' [] hp, homepage = hp\<rparr>
      else None)"

definition csspath :: string where
  "csspath = ''.vertical-tabs__tabs > div:nth-child(3) > ul:nth-child(4) > li:nth-child(1) > a:nth-child(1)''"

definition csspath_alt :: string where
  "csspath_alt = ''.vertical-tabs__tabs > div:nth-child(2) > ul:nth-child(2) > li:nth-child(2) > a:nth-child(1)''"

definition get_links ::
  "'e env \<Rightarrow> string \<Rightarrow> request list \<Rightarrow> (py_error + links option) \<times> request list" where
  \<comment> \<open>\<^verbatim>\<open>select_one\<close> returning \<^verbatim>\<open>None\<close> makes \<^verbatim>\<open>.attrs\<close> raise the \<^verbatim>\<open>AttributeError\<close> that
      is caught; a missing \<^verbatim>\<open>href\<close> key raises \<^verbatim>\<open>KeyError\<close>, which is not (the keyword
      \<^verbatim>\<open>href=True\<close> is passed on to the selector library, which ignores it)\<close>
  "get_links E pkg_url log =
     (case send E log (Get pkg_url [] [] None) of (r, log1) \<Rightarrow>
        (case soup_select_one E (rtext r) csspath of
           None \<Rightarrow> (Inr None, log1)
         | Some a \<Rightarrow>
             (case tag_get E a ''href'' of
                None \<Rightarrow> (Inl KeyError, log1)
              | Some hp \<Rightarrow>
                  if py_in ''issues'' hp
                  then (case soup_select_one E (rtext r) csspath_alt of
                          None \<Rightarrow> (Inr None, log1)
                        | Some a2 \<Rightarrow>
                            (case tag_get E a2 ''href'' of
                               None \<Rightarrow> (Inl KeyError, log1)
                             | Some hp2 \<Rightarrow> (Inr (links_of hp2), log1)))
                  else (Inr (links_of hp), log1))))"

definition info_default :: repo_info where
  "info_default =
     \<lparr>gh_stars = PInt 0, gh_forks = PInt 0, gh_watchers = PInt 0, gh_set = False, gh_link = []\<rparr>"

definition dict_get :: "(string \<times> pyval) list \<Rightarrow> string \<Rightarrow> pyval \<Rightarrow> pyval" where
  \<comment> \<open>\<^verbatim>\<open>d.get(key, default)\<close>\<close>
  "dict_get d k dflt = (case map_of d k of None \<Rightarrow> dflt | Some v \<Rightarrow> v)"

definition get_repo_info ::
  "'e env \<Rightarrow> string \<Rightarrow> auth option \<Rightarrow> request list
     \<Rightarrow> (py_error + repo_info option) \<times> request list" where
  \<comment> \<open>\<^verbatim>\<open>.get\<close> on a decoded body that is not a dict raises the \<^verbatim>\<open>AttributeError\<close> that is
      caught; a body that does not decode raises out of the function; a status other than
      401, 404, 403 and 200 reaches the end of the function, which returns \<^verbatim>\<open>None\<close>\<close>
  "get_repo_info E repo au log =
     (let info = info_default
      in case py_split_on ''github.com/'' repo of
           _ # second # _ \<Rightarrow>
             (let reponame = py_rstrip ''/'' second;
                  apiurl = ''https://api.github.com/repos/'' @ reponame
              in case send E log (Get apiurl [] [] au) of (r, log1) \<Rightarrow>
                   if status_code r = 401 then (Inr (Some info), log1)
                   else if status_code r = 404 then (Inr (Some info), log1)
                   else if status_code r = 403 then (Inr (Some info), log1)
                   else if status_code r = 200 then
                     (case response_json E (rtext r) of
                        None \<Rightarrow> (Inl JSONDecodeError, log1)
                      | Some (PDict d) \<Rightarrow>
                          (Inr (Some (info\<lparr>gh_stars := dict_get d ''stargazers_count'' (PInt 0),
                                            gh_forks := dict_get d ''forks_count'' (PInt 0),
                                            gh_watchers := dict_get d ''watchers_count'' (PInt 0),
                                            gh_link := repo, gh_set := True\<rparr>)), log1)
                      | Some _ \<Rightarrow> (Inr (Some info), log1))
                   else (Inr None, log1))
         | _ \<Rightarrow> (Inr (Some info), log))"

definition get_github_info ::
  "'e env \<Rightarrow> string \<Rightarrow> auth option \<Rightarrow> request list
     \<Rightarrow> (py_error + repo_info option) \<times> request list" where
  "get_github_info E repolink authparam log =
     (case get_links E repolink log of
        (Inl e, log1) \<Rightarrow> (Inl e, log1)
      | (Inr None, log1) \<Rightarrow> (Inr None, log1)
      | (Inr (Some gh_lnk), log1) \<Rightarrow> get_repo_info E (github gh_lnk) authparam log1)"

section \<open>The search generator\<close>

text \<open>
  \<^verbatim>\<open>opts\<close> is a plain dict or an \<^verbatim>\<open>argparse.Namespace\<close>. The code reads it by attribute
  access only (\<^verbatim>\<open>opts.debug\<close>, \<^verbatim>\<open>opts.extra\<close>), and a dict has neither attribute.
\<close>

datatype opts = Dict "(string \<times> pyval) list" | Namespace "(string \<times> pyval) list"

fun opts_getattr :: "opts \<Rightarrow> string \<Rightarrow> py_error + pyval" where
  "opts_getattr (Dict items) attr = Inl AttributeError"
| "opts_getattr (Namespace attrs) attr =
     (case map_of attrs attr of None \<Rightarrow> Inl AttributeError | Some v \<Rightarrow> Inr v)"

text \<open>
  A run of the generator to its end: the packages it yields, in order, the exception that
  ends it (if any), and the requests that the session has sent.
\<close>

record outcome =
  yielded :: "package list"
  raised :: "py_error option"
  requests :: "request list"

definition headers :: "(string \<times> string) list" where
  "headers = [(''User-Agent'',
     ''Mozilla/5.0 (Windows NT 10.0; Win64; x64; rv:133.0) Gecko/20100101 Firefox/133.0'')]"

definition sel_snippet :: string where
  \<open>sel_snippet = ''a[class*="package-snippet"]''\<close>

definition sel_name :: string where
  \<open>sel_name = ''span[class*="package-snippet__name"]''\<close>

definition sel_created :: string where
  \<open>sel_created = ''span[class*="package-snippet__created"]''\<close>

definition sel_description :: string where
  \<open>sel_description = ''p[class*="package-snippet__description"]''\<close>

definition sel_version :: string where
  "sel_version = ''h1.package-header__name''"

fun page_loop ::
  "'e env \<Rightarrow> string \<Rightarrow> nat list \<Rightarrow> 'e list \<Rightarrow> request list \<Rightarrow> 'e list \<times> request list" where
  "page_loop E query [] snippets log = (snippets, log)"
| "page_loop E query (page # pages) snippets log =
     (case send E log (Get api_url [(''q'', PStr query), (''page'', PInt (int page))] [] None) of
        (r, log1) \<Rightarrow> page_loop E query pages (snippets @ soup_select E (rtext r) sel_snippet) log1)"

definition link_of :: "'e env \<Rightarrow> 'e \<Rightarrow> string" where
  \<comment> \<open>line 142; \<^verbatim>\<open>urljoin(base, None)\<close> returns \<open>base\<close>\<close>
  "link_of E snippet =
     (case tag_get E snippet ''href'' of
        None \<Rightarrow> api_url
      | Some href \<Rightarrow> urljoin E api_url href)"

definition name_of :: "'e env \<Rightarrow> 'e \<Rightarrow> py_error + string" where
  \<comment> \<open>line 143\<close>
  "name_of E snippet =
     (case tag_select_one E snippet sel_name of
        None \<Rightarrow> Inl AttributeError
      | Some el \<Rightarrow> Inr (re_sub_ws (py_strip (tag_text E el))))"

definition version_of :: "'e env \<Rightarrow> 'e option \<Rightarrow> py_error + string" where
  \<comment> \<open>line 150: \<^verbatim>\<open>version_element.text.split()[-1] if version_element else "Unknown"\<close>\<close>
  "version_of E version_element =
     (case version_element of
        None \<Rightarrow> Inr ''Unknown''
      | Some el \<Rightarrow>
          (case py_split (tag_text E el) of
             [] \<Rightarrow> Inl IndexError
           | t # ts \<Rightarrow> Inr (last (t # ts))))"

definition released_of :: "'e env \<Rightarrow> 'e \<Rightarrow> py_error + string" where
  \<comment> \<open>line 152\<close>
  "released_of E snippet =
     (case tag_select_one E snippet sel_created of
        None \<Rightarrow> Inl AttributeError
      | Some el \<Rightarrow>
          (case tag_find E el ''time'' of
             None \<Rightarrow> Inl TypeError
           | Some t \<Rightarrow>
               (case tag_get E t ''datetime'' of
                  None \<Rightarrow> Inl KeyError
                | Some d \<Rightarrow> Inr (re_sub_ws d))))"

definition description_of :: "'e env \<Rightarrow> 'e \<Rightarrow> py_error + string" where
  \<comment> \<open>line 153\<close>
  "description_of E snippet =
     (case tag_select_one E snippet sel_description of
        None \<Rightarrow> Inl AttributeError
      | Some el \<Rightarrow> Inr (re_sub_ws (py_strip (tag_text E el))))"

definition enrich ::
  "'e env \<Rightarrow> bool \<Rightarrow> bool \<Rightarrow> auth option \<Rightarrow> string \<Rightarrow> package \<Rightarrow> request list
     \<Rightarrow> (py_error + package) \<times> request list" where
  \<comment> \<open>lines 156 to 160; the f-string of line 160 reads the undefined name \<^verbatim>\<open>s\<close>\<close>
  "enrich E DEBUG extra authparam lnk pack log =
     (if extra
      then (case get_github_info E lnk authparam log of
              (Inl e, log1) \<Rightarrow> (Inl e, log1)
            | (Inr None, log1) \<Rightarrow> (Inr pack, log1)
            | (Inr (Some info), log1) \<Rightarrow>
                if DEBUG then (Inl NameError, log1) else (Inr (set_gh_info pack info), log1))
      else (Inr pack, log))"

definition snippet_step ::
  "'e env \<Rightarrow> bool \<Rightarrow> bool \<Rightarrow> auth option \<Rightarrow> 'e \<Rightarrow> request list
     \<Rightarrow> (py_error + package) \<times> request list" where
  \<comment> \<open>the body of the loop of line 141, up to the \<^verbatim>\<open>yield\<close>\<close>
  "snippet_step E DEBUG extra authparam snippet log =
     (let lnk = link_of E snippet
      in case name_of E snippet of
           Inl e \<Rightarrow> (Inl e, log)
         | Inr package_name \<Rightarrow>
             (case send E log (Get lnk [] [] None) of (resp, log1) \<Rightarrow>
                (case version_of E (soup_select_one E (rtext resp) sel_version) of
                   Inl e \<Rightarrow> (Inl e, log1)
                 | Inr ver \<Rightarrow>
                     (case released_of E snippet of
                        Inl e \<Rightarrow> (Inl e, log1)
                      | Inr rel \<Rightarrow>
                          (case description_of E snippet of
                             Inl e \<Rightarrow> (Inl e, log1)
                           | Inr descr \<Rightarrow>
                               (case Package_init E package_name ver rel descr (Some lnk) of
                                  Inl e \<Rightarrow> (Inl e, log1)
                                | Inr pack \<Rightarrow>
                                    enrich E DEBUG extra authparam lnk pack log1))))))"

fun snippet_loop ::
  "'e env \<Rightarrow> bool \<Rightarrow> bool \<Rightarrow> auth option \<Rightarrow> 'e list \<Rightarrow> request list \<Rightarrow> outcome" where
  "snippet_loop E DEBUG extra authparam [] log =
     \<lparr>yielded = [], raised = None, requests = log\<rparr>"
| "snippet_loop E DEBUG extra authparam (snippet # rest) log =
     (case snippet_step E DEBUG extra authparam snippet log of
        (Inl e, log1) \<Rightarrow> \<lparr>yielded = [], raised = Some e, requests = log1\<rparr>
      | (Inr pack, log1) \<Rightarrow>
          (let out = snippet_loop E DEBUG extra authparam rest log1
           in out\<lparr>yielded := pack # yielded out\<rparr>))"

definition pow_data :: "string \<Rightarrow> string \<Rightarrow> string \<Rightarrow> string \<Rightarrow> string \<Rightarrow> pyval" where
  \<comment> \<open>the JSON body of lines 111 to 116\<close>
  "pow_data token base answer hmac expires =
     PDict [(''token'', PStr token),
            (''data'', PList [PDict [(''ty'', PStr ''pow''), (''base'', PStr base),
                                     (''answer'', PStr answer), (''hmac'', PStr hmac),
                                     (''expires'', PStr expires)]])]"

definition search :: "'e env \<Rightarrow> bool \<Rightarrow> string \<Rightarrow> opts \<Rightarrow> outcome" where
  \<comment> \<open>\<open>DEBUG0\<close> is the module's global \<^verbatim>\<open>DEBUG\<close> when the generator starts; an empty
      \<^verbatim>\<open>findall\<close> result makes \<^verbatim>\<open>[0]\<close> raise \<^verbatim>\<open>IndexError\<close>\<close>
  "search E DEBUG0 query opts =
     (case opts_getattr opts ''debug'' of
        Inl e \<Rightarrow> \<lparr>yielded = [], raised = Some e, requests = []\<rparr>
      | Inr dbg \<Rightarrow>
          (let DEBUG = (if truthy dbg then True else DEBUG0)
           in case send E [] (Get api_url [(''q'', PStr query)] headers None) of (r, log1) \<Rightarrow>
             (case findall_script E (rtext r) of
                [] \<Rightarrow> \<lparr>yielded = [], raised = Some IndexError, requests = log1\<rparr>
              | path # _ \<Rightarrow>
                  (case send E log1 (Get (''https://pypi.org/'' @ path @ ''/script.js'') [] [] None)
                   of (r2, log2) \<Rightarrow>
                     (case findall_pow E (rtext r2) of
                        [] \<Rightarrow> \<lparr>yielded = [], raised = Some IndexError, requests = log2\<rparr>
                      | (base, hash, hmac, expires, token) # _ \<Rightarrow>
                          (let answer = solve (sha256_hexdigest E) base hash
                           in case send E log2
                                     (Post (''https://pypi.org/'' @ path @ ''/fst-post-back'')
                                        (pow_data token base answer hmac expires))
                              of (r3, log3) \<Rightarrow>
                                (case page_loop E query [1..<page_size + 1] [] log3 of
                                   (snippets, log4) \<Rightarrow>
                                     (case opts_getattr opts ''extra'' of
                                        Inl e \<Rightarrow>
                                          \<lparr>yielded = [], raised = Some e, requests = log4\<rparr>
                                      | Inr ex \<Rightarrow>
                                          (let authparam =
                                                 (if truthy ex
                                                  then Some (getenv E ''GITHUB_USERNAME'',
                                                             getenv E ''GITHUBAPITOKEN'')
                                                  else None)
                                           in snippet_loop E DEBUG (truthy ex) authparam
                                                snippets log4)))))))))"

section \<open>A small world to run the code in\<close>

text \<open>
  One search page with the challenge, one result page with a single snippet for the package
  \<open>foo\<close>, its detail page and the API of the code-hosting platform. The parameters are the
  API's response, the link at the primary slot of the detail page and the text of the
  version element. Elements are named by strings; the digest is a stand-in.
\<close>

definition demo_http :: "response \<Rightarrow> request list \<Rightarrow> request \<Rightarrow> response" where
  "demo_http api_resp log req =
     (case req of
        Post url body \<Rightarrow> Response 200 []
      | Get url params hdrs au \<Rightarrow>
          if url = api_url then
            (if map_of params ''page'' = None then Response 200 ''challenge''
             else if map_of params ''page'' = Some (PInt 1) then Response 200 ''page1''
             else Response 200 ''page2'')
          else if url = ''https://pypi.org/abc/script.js'' then Response 200 ''script''
          else if url = ''https://pypi.org/project/foo/'' then Response 200 ''detail''
          else if url = ''https://api.github.com/repos/u/foo'' then api_resp
          else Response 404 [])"

definition demo_env :: "response \<Rightarrow> string \<Rightarrow> string \<Rightarrow> string env" where
  "demo_env api_resp home vtext =
     \<lparr>http = demo_http api_resp,
      findall_script = (\<lambda>t. if t = ''challenge'' then [''abc''] else []),
      findall_pow = (\<lambda>t. if t = ''script'' then [(''x'', ''bbx'', ''h'', ''e'', ''t'')] else []),
      sha256_hexdigest = rev,
      soup_select = (\<lambda>t css. if t = ''page1'' \<and> css = sel_snippet then [''snippet''] else []),
      soup_select_one = (\<lambda>t css.
         if t = ''detail'' \<and> css = sel_version then Some ''h1''
         else if t = ''detail'' \<and> css = csspath then Some ''a''
         else None),
      tag_select_one = (\<lambda>el css.
         if el = ''snippet'' \<and> css = sel_name then Some ''name''
         else if el = ''snippet'' \<and> css = sel_created then Some ''created''
         else if el = ''snippet'' \<and> css = sel_description then Some ''description''
         else None),
      tag_find = (\<lambda>el nm. if el = ''created'' \<and> nm = ''time'' then Some ''time'' else None),
      tag_text = (\<lambda>el.
         if el = ''name'' then '' foo ''
         else if el = ''h1'' then vtext
         else if el = ''description'' then ''a  package''
         else []),
      tag_get = (\<lambda>el attr.
         if el = ''snippet'' \<and> attr = ''href'' then Some ''/project/foo/''
         else if el = ''time'' \<and> attr = ''datetime'' then Some ''2023-05-01T00:00:00+00:00''
         else if el = ''a'' \<and> attr = ''href'' then Some home
         else None),
      urljoin = (\<lambda>base url. ''https://pypi.org'' @ url),
      strptime = (\<lambda>s fmt.
         if s = ''2023-05-01T00:00:00+00:00'' then Some (Datetime 2023 5 1 0 0 0 0) else None),
      response_json = (\<lambda>body.
         if body = ''{stargazers_count: 7}'' then Some (PDict [(''stargazers_count'', PInt 7)])
         else if body = ''[]'' then Some (PList [])
         else None),
      getenv = (\<lambda>var. None)\<rparr>"

definition demo_opts :: "bool \<Rightarrow> opts" where
  "demo_opts extra = Namespace [(''debug'', PBool False), (''extra'', PBool extra)]"

definition world_ok :: "string env" where
  "world_ok =
     demo_env (Response 200 ''{stargazers_count: 7}'') ''https://github.com/u/foo/tags'' ''foo 1.0''"

definition world_401 :: "string env" where
  "world_401 = demo_env (Response 401 []) ''https://github.com/u/foo'' ''foo 1.0''"

definition world_500 :: "string env" where
  "world_500 = demo_env (Response 500 []) ''https://github.com/u/foo'' ''foo 1.0''"

definition world_bad_json :: "string env" where
  "world_bad_json = demo_env (Response 200 ''<html>'') ''https://github.com/u/foo'' ''foo 1.0''"

definition world_no_script :: "string env" where
  "world_no_script = world_ok\<lparr>findall_script := (\<lambda>t. [])\<rparr>"

definition world_no_pow :: "string env" where
  "world_no_pow = world_ok\<lparr>findall_pow := (\<lambda>t. [])\<rparr>"

definition world_blank_version :: "string env" where
  "world_blank_version = demo_env (Response 401 []) ''https://github.com/u/foo'' [CHR '' '', CHR 0x09]"





definition foo_package :: package where
  "foo_package =
     \<lparr>name = ''foo'', version = ''1.0'', released = ''2023-05-01T00:00:00+00:00'',
      description = ''a package'', link = ''https://pypi.org/project/foo/'',
      released_date = Datetime 2023 5 1 0 0 0 0, stars = PInt 0, forks = PInt 0,
      watchers = PInt 0, github_link = [], info_set = False\<rparr>"


section \<open>Properties of the solver\<close>

lemma find_append_case:
  "find P (xs @ ys) = (case find P xs of None \<Rightarrow> find P ys | Some x \<Rightarrow> Some x)"
  by (induction xs) auto

lemma find_map_comp: "find P (map f xs) = map_option f (find (P \<circ> f) xs)"
  by (induction xs) auto

lemma inner_loop_find:
  "inner_loop H base hash c1 a cs =
     (case find (\<lambda>c2. H (base @ [c1, c2]) = hash) cs of None \<Rightarrow> a | Some c2 \<Rightarrow> [c1, c2])"
  by (induction cs) (auto simp: Let_def)

lemma pairs_from_Cons:
  "pairs_from (c1 # cs) = map (\<lambda>c2. [c1, c2]) characters @ pairs_from cs"
  by (simp add: pairs_from_def)

lemma outer_loop_find:
  "outer_loop H base hash [] cs =
     (case find (\<lambda>p. H (base @ p) = hash) (pairs_from cs) of None \<Rightarrow> [] | Some p \<Rightarrow> p)"
proof (induction cs)
  case Nil
  show ?case by (simp add: pairs_from_def)
next
  case (Cons c1 cs)
  show ?case
    using Cons.IH
    by (simp add: pairs_from_Cons find_append_case find_map_comp inner_loop_find Let_def comp_def
        split: option.splits)
qed

lemma solve_find:
  "solve H base hash =
     (case find (\<lambda>p. H (base @ p) = hash) keyspace of None \<Rightarrow> [] | Some p \<Rightarrow> p)"
  by (simp add: solve_def keyspace_def outer_loop_find)

lemma characters_eq:
  "characters = ''abcdefghijklmnopqrstuvwxyzABCDEFGHIJKLMNOPQRSTUVWXYZ0123456789''"
  by (simp add: characters_def ascii_letters_def ascii_lowercase_def ascii_uppercase_def digits_def)

lemma length_characters: "length characters = 62"
  by (simp add: characters_eq)

lemma length_keyspace: "length keyspace = 62 * 62"
  by (simp add: keyspace_def pairs_from_def length_concat comp_def length_characters sum_list_triv)

lemma set_keyspace:
  "set keyspace = {[c1, c2] | c1 c2. c1 \<in> set characters \<and> c2 \<in> set characters}"
  by (auto simp: keyspace_def pairs_from_def)

lemma find_first_index:
  "i < length xs \<Longrightarrow> P (xs ! i) \<Longrightarrow> \<forall>j<i. \<not> P (xs ! j) \<Longrightarrow> find P xs = Some (xs ! i)"
proof (induction xs arbitrary: i)
  case Nil
  then show ?case by simp
next
  case (Cons x xs)
  show ?case
  proof (cases i)
    case 0
    with Cons.prems show ?thesis by simp
  next
    case (Suc k)
    from Cons.prems Suc have "\<not> P x" by auto
    moreover have "find P xs = Some (xs ! k)"
    proof (rule Cons.IH)
      show "k < length xs" using Cons.prems Suc by simp
      show "P (xs ! k)" using Cons.prems Suc by simp
      show "\<forall>j<k. \<not> P (xs ! j)"
      proof (intro allI impI)
        fix j assume "j < k"
        then have "Suc j < i" using Suc by simp
        with Cons.prems(3) have "\<not> P ((x # xs) ! Suc j)" by blast
        then show "\<not> P (xs ! j)" by simp
      qed
    qed
    ultimately show ?thesis using Suc by simp
  qed
qed

lemma find_pairs_first:
  assumes "i1 < length xs" and "i2 < length ys" and "P [xs ! i1, ys ! i2]"
    and "\<forall>j1<length xs. \<forall>j2<length ys.
           (j1 < i1 \<or> (j1 = i1 \<and> j2 < i2)) \<longrightarrow> \<not> P [xs ! j1, ys ! j2]"
  shows "find P (concat (map (\<lambda>a. map (\<lambda>b. [a, b]) ys) xs)) = Some [xs ! i1, ys ! i2]"
  using assms
proof (induction xs arbitrary: i1)
  case Nil
  then show ?case by simp
next
  case (Cons x xs)
  show ?case
  proof (cases i1)
    case 0
    have "find (P \<circ> (\<lambda>b. [x, b])) ys = Some (ys ! i2)"
    proof (rule find_first_index)
      show "i2 < length ys" by (rule Cons.prems(2))
      show "(P \<circ> (\<lambda>b. [x, b])) (ys ! i2)" using Cons.prems(3) 0 by simp
      show "\<forall>j<i2. \<not> (P \<circ> (\<lambda>b. [x, b])) (ys ! j)"
      proof (intro allI impI)
        fix j assume j: "j < i2"
        then have "j < length ys" using Cons.prems(2) by simp
        with Cons.prems(4) j 0 have "\<not> P [(x # xs) ! 0, ys ! j]" by force
        then show "\<not> (P \<circ> (\<lambda>b. [x, b])) (ys ! j)" by simp
      qed
    qed
    then show ?thesis using 0 by (simp add: find_append_case find_map_comp)
  next
    case (Suc k)
    have none: "find (P \<circ> (\<lambda>b. [x, b])) ys = None"
    proof -
      have "\<not> P [x, b]" if "b \<in> set ys" for b
      proof -
        from that obtain j where j: "j < length ys" "ys ! j = b"
          by (auto simp: in_set_conv_nth)
        from Cons.prems(4) j(1) Suc have "\<not> P [(x # xs) ! 0, ys ! j]" by force
        with j(2) show ?thesis by simp
      qed
      then show ?thesis by (auto simp: find_None_iff)
    qed
    have "find P (concat (map (\<lambda>a. map (\<lambda>b. [a, b]) ys) xs)) = Some [xs ! k, ys ! i2]"
    proof (rule Cons.IH)
      show "k < length xs" using Cons.prems(1) Suc by simp
      show "i2 < length ys" by (rule Cons.prems(2))
      show "P [xs ! k, ys ! i2]" using Cons.prems(3) Suc by simp
      show "\<forall>j1<length xs. \<forall>j2<length ys.
              (j1 < k \<or> (j1 = k \<and> j2 < i2)) \<longrightarrow> \<not> P [xs ! j1, ys ! j2]"
      proof (intro allI impI)
        fix j1 j2
        assume a: "j1 < length xs" "j2 < length ys" "j1 < k \<or> (j1 = k \<and> j2 < i2)"
        then have "Suc j1 < length (x # xs)" "Suc j1 < i1 \<or> (Suc j1 = i1 \<and> j2 < i2)"
          using Suc by auto
        with Cons.prems(4) a(2) have "\<not> P [(x # xs) ! Suc j1, ys ! j2]" by blast
        then show "\<not> P [xs ! j1, ys ! j2]" by simp
      qed
    qed
    then show ?thesis using Suc none by (simp add: find_append_case find_map_comp)
  qed
qed

text \<open>
  Claim C1. The solver walks the pairs \<open>c1 c2\<close> of the alphabet
  \<^verbatim>\<open>a-z A-Z 0-9\<close> with \<open>c1\<close> in the outer loop and \<open>c2\<close> in the inner loop, and returns the
  first pair whose digest equals the target (the empty string if there is none). In
  particular, when the pair at positions \<open>i1\<close>, \<open>i2\<close> of the alphabet hashes to the target
  and no pair before it in that order does, the solver returns exactly that pair. This
  holds for every digest function, so for SHA-256.
\<close>

theorem solve_first_match:
  "characters = ''abcdefghijklmnopqrstuvwxyzABCDEFGHIJKLMNOPQRSTUVWXYZ0123456789''
   \<and> keyspace = concat (map (\<lambda>c1. map (\<lambda>c2. [c1, c2]) characters) characters)
   \<and> solve H base hash =
       (case find (\<lambda>p. H (base @ p) = hash) keyspace of None \<Rightarrow> [] | Some p \<Rightarrow> p)
   \<and> (\<forall>i1<length characters. \<forall>i2<length characters.
         H (base @ [characters ! i1, characters ! i2]) = hash \<longrightarrow>
         (\<forall>j1<length characters. \<forall>j2<length characters.
            (j1 < i1 \<or> (j1 = i1 \<and> j2 < i2)) \<longrightarrow>
            H (base @ [characters ! j1, characters ! j2]) \<noteq> hash) \<longrightarrow>
         solve H base hash = [characters ! i1, characters ! i2])"
proof (intro conjI allI impI)
  show "characters = ''abcdefghijklmnopqrstuvwxyzABCDEFGHIJKLMNOPQRSTUVWXYZ0123456789''"
    by (rule characters_eq)
  show ks: "keyspace = concat (map (\<lambda>c1. map (\<lambda>c2. [c1, c2]) characters) characters)"
    by (simp add: keyspace_def pairs_from_def)
  show "solve H base hash =
       (case find (\<lambda>p. H (base @ p) = hash) keyspace of None \<Rightarrow> [] | Some p \<Rightarrow> p)"
    by (rule solve_find)
  fix i1 i2
  assume i: "i1 < length characters" "i2 < length characters"
    and hit: "H (base @ [characters ! i1, characters ! i2]) = hash"
    and first: "\<forall>j1<length characters. \<forall>j2<length characters.
            (j1 < i1 \<or> (j1 = i1 \<and> j2 < i2)) \<longrightarrow>
            H (base @ [characters ! j1, characters ! j2]) \<noteq> hash"
  have "find (\<lambda>p. H (base @ p) = hash) keyspace = Some [characters ! i1, characters ! i2]"
    unfolding ks using i hit first by (intro find_pairs_first) auto
  then show "solve H base hash = [characters ! i1, characters ! i2]"
    by (simp add: solve_find)
qed

theorem solve_first_match_witness:
  "solve rev ''x'' ''bbx'' = ''bb''"
proof -
  have b: "characters ! 1 = CHR ''b''" by (simp add: characters_eq)
  have a: "characters ! 0 = CHR ''a''" by (simp add: characters_eq)
  have hit: "rev (''x'' @ [characters ! 1, characters ! 1]) = ''bbx''" using b by simp
  have first: "\<forall>j1<length characters. \<forall>j2<length characters.
            (j1 < 1 \<or> (j1 = 1 \<and> j2 < 1)) \<longrightarrow>
            rev (''x'' @ [characters ! j1, characters ! j2]) \<noteq> ''bbx''"
    using a by auto
  have len: "1 < length characters" by (simp add: length_characters)
  from solve_first_match [of rev "''x''" "''bbx''"] len hit first
  have "solve rev ''x'' ''bbx'' = [characters ! 1, characters ! 1]" by blast
  with b show ?thesis by simp
qed

text \<open>
  Claim C5. The alphabet has 62 characters and the key space \<open>62 * 62\<close> pairs. When no
  pair of the alphabet hashes to the target, the solver returns the empty string. The two
  loops are structural recursions over the alphabet, so the solver is total: it neither
  diverges nor raises.
\<close>

theorem solve_exhausted:
  "length characters = 62 \<and> length keyspace = 62 * 62
   \<and> ((\<forall>c1\<in>set characters. \<forall>c2\<in>set characters. H (base @ [c1, c2]) \<noteq> hash) \<longrightarrow>
        solve H base hash = [])"
proof (intro conjI impI)
  show "length characters = 62" by (rule length_characters)
  show "length keyspace = 62 * 62" by (rule length_keyspace)
next
  assume none: "\<forall>c1\<in>set characters. \<forall>c2\<in>set characters. H (base @ [c1, c2]) \<noteq> hash"
  have "find (\<lambda>p. H (base @ p) = hash) keyspace = None"
    using none by (auto simp: find_None_iff set_keyspace)
  then show "solve H base hash = []" by (simp add: solve_find)
qed

theorem solve_exhausted_witness:
  "solve rev ''x'' ''no'' = []"
proof -
  have a: "\<forall>c1\<in>set characters. \<forall>c2\<in>set characters. rev (''x'' @ [c1, c2]) \<noteq> ''no''"
    by simp
  from solve_exhausted [of rev "''x''" "''no''"] a show ?thesis by blast
qed


section \<open>Properties of the search generator\<close>

lemma search_debug_missing:
  "opts_getattr opts ''debug'' = Inl e \<Longrightarrow>
     search E DEBUG0 query opts = \<lparr>yielded = [], raised = Some e, requests = []\<rparr>"
  by (simp add: search_def)

lemma search_extra_missing:
  "opts_getattr opts ''extra'' = Inl e \<Longrightarrow> raised (search E DEBUG0 query opts) \<noteq> None"
  by (simp add: search_def Let_def split: sum.splits list.splits prod.splits)

text \<open>
  Claim C9. With the default \<^verbatim>\<open>{}\<close> or any other plain dict as \<^verbatim>\<open>opts\<close>, the generator
  raises \<^verbatim>\<open>AttributeError\<close> at \<^verbatim>\<open>opts.debug\<close>, before the session has sent any request and
  before any package is yielded. A run that ends without an exception had an options
  object with both a \<^verbatim>\<open>debug\<close> and an \<^verbatim>\<open>extra\<close> attribute.
\<close>

theorem search_opts_attribute_access:
  "search E DEBUG0 query (Dict items) = \<lparr>yielded = [], raised = Some AttributeError, requests = []\<rparr>
   \<and> (raised (search E DEBUG0 query opts) = None \<longrightarrow>
        (\<exists>attrs d x. opts = Namespace attrs \<and> map_of attrs ''debug'' = Some d
           \<and> map_of attrs ''extra'' = Some x))"
proof (intro conjI impI)
  show "search E DEBUG0 query (Dict items) =
          \<lparr>yielded = [], raised = Some AttributeError, requests = []\<rparr>"
    by (simp add: search_debug_missing)
next
  assume ok: "raised (search E DEBUG0 query opts) = None"
  show "\<exists>attrs d x. opts = Namespace attrs \<and> map_of attrs ''debug'' = Some d
           \<and> map_of attrs ''extra'' = Some x"
  proof (cases opts)
    case (Dict items')
    then have "raised (search E DEBUG0 query opts) = Some AttributeError"
      by (simp add: search_debug_missing)
    with ok show ?thesis by simp
  next
    case (Namespace attrs)
    have d: "map_of attrs ''debug'' \<noteq> None"
    proof
      assume "map_of attrs ''debug'' = None"
      then have "opts_getattr opts ''debug'' = Inl AttributeError" using Namespace by simp
      then have "raised (search E DEBUG0 query opts) = Some AttributeError"
        by (simp add: search_debug_missing)
      with ok show False by simp
    qed
    have x: "map_of attrs ''extra'' \<noteq> None"
    proof
      assume "map_of attrs ''extra'' = None"
      then have "opts_getattr opts ''extra'' = Inl AttributeError" using Namespace by simp
      then have "raised (search E DEBUG0 query opts) \<noteq> None"
        by (rule search_extra_missing)
      with ok show False by simp
    qed
    from d x Namespace show ?thesis by auto
  qed
qed

theorem search_opts_attribute_access_witness:
  "raised (search world_ok False ''foo'' (demo_opts False)) = None
   \<and> (\<exists>attrs d x. demo_opts False = Namespace attrs \<and> map_of attrs ''debug'' = Some d
           \<and> map_of attrs ''extra'' = Some x)"
proof -
  have ok: "raised (search world_ok False ''foo'' (demo_opts False)) = None"
    by code_simp
  from search_opts_attribute_access [of world_ok False "''foo''" "[]" "demo_opts False"] ok
  show ?thesis by blast
qed

text \<open>
  Claim C4, amended. The source has no \<^verbatim>\<open>ProtocolError\<close>: when \<^verbatim>\<open>opts.debug\<close> can be read and
  the search page has no match for the script pattern, or the script has no match for the
  proof-of-work pattern, \<^verbatim>\<open>findall(...)[0]\<close> raises \<^verbatim>\<open>IndexError\<close>. Nothing is yielded and no
  request is repeated: the session has sent the search request only, respectively the
  search request and the script request.
\<close>

theorem negotiation_failure_IndexError:
  assumes "opts_getattr opts ''debug'' = Inr dbg"
  shows "(findall_script E (rtext (http E [] (Get api_url [(''q'', PStr query)] headers None))) = []
           \<longrightarrow> search E DEBUG0 query opts =
                 \<lparr>yielded = [], raised = Some IndexError,
                  requests = [Get api_url [(''q'', PStr query)] headers None]\<rparr>)
       \<and> (\<forall>path ps.
            findall_script E (rtext (http E [] (Get api_url [(''q'', PStr query)] headers None)))
              = path # ps
            \<longrightarrow> findall_pow E (rtext (http E [Get api_url [(''q'', PStr query)] headers None]
                                   (Get (''https://pypi.org/'' @ path @ ''/script.js'') [] [] None)))
              = []
            \<longrightarrow> search E DEBUG0 query opts =
                 \<lparr>yielded = [], raised = Some IndexError,
                  requests = [Get api_url [(''q'', PStr query)] headers None,
                              Get (''https://pypi.org/'' @ path @ ''/script.js'') [] [] None]\<rparr>)"
  using assms by (simp add: search_def send_def Let_def)

theorem negotiation_failure_IndexError_witness:
  "search world_no_script False ''foo'' (demo_opts False) =
     \<lparr>yielded = [], raised = Some IndexError,
      requests = [Get api_url [(''q'', PStr ''foo'')] headers None]\<rparr>
   \<and> search world_no_pow False ''foo'' (demo_opts False) =
     \<lparr>yielded = [], raised = Some IndexError,
      requests = [Get api_url [(''q'', PStr ''foo'')] headers None,
                  Get ''https://pypi.org/abc/script.js'' [] [] None]\<rparr>"
proof -
  have d: "opts_getattr (demo_opts False) ''debug'' = Inr (PBool False)"
    by (simp add: demo_opts_def)
  have a: "findall_script world_no_script
             (rtext (http world_no_script [] (Get api_url [(''q'', PStr ''foo'')] headers None))) = []"
    by (simp add: world_no_script_def)
  have b: "findall_script world_no_pow
             (rtext (http world_no_pow [] (Get api_url [(''q'', PStr ''foo'')] headers None)))
           = ''abc'' # []"
    by code_simp
  have c: "findall_pow world_no_pow
             (rtext (http world_no_pow [Get api_url [(''q'', PStr ''foo'')] headers None]
                       (Get (''https://pypi.org/'' @ ''abc'' @ ''/script.js'') [] [] None))) = []"
    by (simp add: world_no_pow_def)
  from negotiation_failure_IndexError [OF d, of world_no_script "''foo''" False] a
  have 1: "search world_no_script False ''foo'' (demo_opts False) =
     \<lparr>yielded = [], raised = Some IndexError,
      requests = [Get api_url [(''q'', PStr ''foo'')] headers None]\<rparr>" by blast
  from negotiation_failure_IndexError [OF d, of world_no_pow "''foo''" False] b c
  have 2: "search world_no_pow False ''foo'' (demo_opts False) =
     \<lparr>yielded = [], raised = Some IndexError,
      requests = [Get api_url [(''q'', PStr ''foo'')] headers None,
                  Get (''https://pypi.org/'' @ ''abc'' @ ''/script.js'') [] [] None]\<rparr>" by blast
  from 1 2 show ?thesis by simp
qed

theorem negotiation_failure_counterexample:
  "raised (search world_no_script False ''foo'' (demo_opts False)) = Some IndexError
   \<and> raised (search world_no_script False ''foo'' (demo_opts False)) \<noteq> Some ProtocolError"
  by code_simp

section \<open>Properties of Package\<close>

text \<open>
  Claim C8, amended. For a release timestamp that \<^verbatim>\<open>strptime\<close> accepts, a Package built
  with \<^verbatim>\<open>link=None\<close> has the link \<^verbatim>\<open>https://pypi.org/project/\<close> followed by its name, and a
  non-empty link that is supplied is kept unchanged. The empty string is falsy in
  \<^verbatim>\<open>link or default\<close>: an empty link that is supplied is replaced by the default too.
\<close>

theorem Package_default_link:
  assumes "strptime E rel ''%Y-%m-%dT%H:%M:%S%z'' = Some d"
  shows "(\<exists>p. Package_init E nm ver rel descr None = Inr p
              \<and> link p = ''https://pypi.org/project/'' @ nm)
       \<and> (l \<noteq> [] \<longrightarrow> (\<exists>p. Package_init E nm ver rel descr (Some l) = Inr p \<and> link p = l))
       \<and> (\<exists>p. Package_init E nm ver rel descr (Some []) = Inr p
              \<and> link p = ''https://pypi.org/project/'' @ nm)"
  using assms by (simp add: Package_init_def link_defualt_format_def)

theorem Package_default_link_witness:
  "(\<exists>p. Package_init world_ok ''foo'' ''1.0'' ''2023-05-01T00:00:00+00:00'' ''a package'' None = Inr p
        \<and> link p = ''https://pypi.org/project/foo'')
   \<and> (\<exists>p. Package_init world_ok ''foo'' ''1.0'' ''2023-05-01T00:00:00+00:00'' ''a package''
              (Some ''https://pypi.org/project/foo/'') = Inr p
        \<and> link p = ''https://pypi.org/project/foo/'')"
proof -
  have d: "strptime world_ok ''2023-05-01T00:00:00+00:00'' ''%Y-%m-%dT%H:%M:%S%z''
             = Some (Datetime 2023 5 1 0 0 0 0)"
    by (simp add: world_ok_def demo_env_def)
  have l: "''https://pypi.org/project/foo/'' \<noteq> []" by simp
  from Package_default_link [OF d, of "''foo''" "''1.0''" "''a package''" "''https://pypi.org/project/foo/''"] l
  show ?thesis by simp
qed

theorem Package_empty_link_counterexample:
  "Package_init world_ok ''foo'' ''1.0'' ''2023-05-01T00:00:00+00:00'' ''a package'' (Some [])
     = Inr (foo_package\<lparr>link := ''https://pypi.org/project/foo''\<rparr>)
   \<and> link (foo_package\<lparr>link := ''https://pypi.org/project/foo''\<rparr>) \<noteq> []"
  by (simp add: Package_init_def link_defualt_format_def world_ok_def demo_env_def foo_package_def)

section \<open>Properties of the version extraction\<close>

lemma split_ws_blank: "\<forall>c\<in>set s. isspace c \<Longrightarrow> split_ws [] s = []"
  by (induction s) auto

lemma py_split_blank: "\<forall>c\<in>set s. isspace c \<Longrightarrow> py_split s = []"
  by (simp add: py_split_def split_ws_blank)

lemma split_ws_tok_nonempty: "tok \<noteq> [] \<Longrightarrow> split_ws tok s \<noteq> []"
  by (induction s arbitrary: tok) auto

lemma py_split_empty_iff: "py_split s = [] \<longleftrightarrow> (\<forall>c\<in>set s. isspace c)"
proof
  assume "py_split s = []"
  then have "split_ws [] s = []" by (simp add: py_split_def)
  then show "\<forall>c\<in>set s. isspace c"
  proof (induction s)
    case Nil
    then show ?case by simp
  next
    case (Cons c cs)
    show ?case
    proof (cases "isspace c")
      case True
      with Cons show ?thesis by simp
    next
      case False
      then have "split_ws [] (c # cs) = split_ws [c] cs" by simp
      with Cons.prems split_ws_tok_nonempty [of "[c]" cs] show ?thesis by simp
    qed
  qed
next
  assume "\<forall>c\<in>set s. isspace c"
  then show "py_split s = []" by (rule py_split_blank)
qed

text \<open>
  Claim C10. When the snippet has its name element and the detail page has the element
  \<^verbatim>\<open>h1.package-header__name\<close> with a text that is empty or whitespace only,
  \<^verbatim>\<open>text.split()[-1]\<close> raises \<^verbatim>\<open>IndexError\<close>: the loop yields no package for that
  snippet or any later one, and the generator ends with that exception after the request
  for the detail page.
\<close>

theorem version_blank_text_IndexError:
  assumes "name_of E snippet = Inr nm"
    and "soup_select_one E (rtext (http E log (Get (link_of E snippet) [] [] None))) sel_version
           = Some el"
    and "\<forall>c\<in>set (tag_text E el). isspace c"
  shows "version_of E (Some el) = Inl IndexError
       \<and> snippet_loop E DEBUG extra authparam (snippet # rest) log =
           \<lparr>yielded = [], raised = Some IndexError,
            requests = log @ [Get (link_of E snippet) [] [] None]\<rparr>"
proof -
  have v: "version_of E (Some el) = Inl IndexError"
    using assms(3) by (simp add: version_of_def py_split_blank)
  have "snippet_step E DEBUG extra authparam snippet log =
          (Inl IndexError, log @ [Get (link_of E snippet) [] [] None])"
    using assms(1,2) v by (simp add: snippet_step_def send_def Let_def)
  with v show ?thesis by simp
qed

theorem version_blank_text_IndexError_witness:
  "version_of world_blank_version (Some ''h1'') = Inl IndexError
   \<and> snippet_loop world_blank_version False False None [''snippet''] [] =
       \<lparr>yielded = [], raised = Some IndexError,
        requests = [Get ''https://pypi.org/project/foo/'' [] [] None]\<rparr>"
proof -
  have n: "name_of world_blank_version ''snippet'' = Inr ''foo''"
    by code_simp
  have l: "link_of world_blank_version ''snippet'' = ''https://pypi.org/project/foo/''"
    by code_simp
  have e: "soup_select_one world_blank_version
             (rtext (http world_blank_version []
                (Get (link_of world_blank_version ''snippet'') [] [] None))) sel_version
           = Some ''h1''"
    by code_simp
  have b: "\<forall>c\<in>set (tag_text world_blank_version ''h1''). isspace c"
    by (simp add: world_blank_version_def demo_env_def isspace_def)
  from version_blank_text_IndexError [OF n e b, of False False None "[]"] l
  show ?thesis by simp
qed










section \<open>Properties of the repository enricher\<close>

lemma get_repo_info_no_segment:
  "py_split_on ''github.com/'' repo = [whole] \<Longrightarrow>
     get_repo_info E repo au log = (Inr (Some info_default), log)"
  by (simp add: get_repo_info_def)

lemma get_repo_info_soft_failure:
  assumes "py_split_on ''github.com/'' repo = pre # second # others"
    and "status_code (http E log (Get (''https://api.github.com/repos/'' @ py_rstrip ''/'' second)
                                     [] [] au)) \<in> {401, 404, 403}"
  shows "fst (get_repo_info E repo au log) = Inr (Some info_default)"
  using assms by (auto simp: get_repo_info_def send_def Let_def)

lemma get_repo_info_other_status:
  assumes "py_split_on ''github.com/'' repo = pre # second # others"
    and "status_code (http E log (Get (''https://api.github.com/repos/'' @ py_rstrip ''/'' second)
                                     [] [] au)) \<notin> {401, 404, 403, 200}"
  shows "fst (get_repo_info E repo au log) = Inr None"
  using assms by (auto simp: get_repo_info_def send_def Let_def)

lemma get_repo_info_undecodable:
  assumes "py_split_on ''github.com/'' repo = pre # second # others"
    and "status_code (http E log (Get (''https://api.github.com/repos/'' @ py_rstrip ''/'' second)
                                     [] [] au)) = 200"
    and "response_json E (rtext (http E log
           (Get (''https://api.github.com/repos/'' @ py_rstrip ''/'' second) [] [] au))) = None"
  shows "fst (get_repo_info E repo au log) = Inl JSONDecodeError"
  using assms by (auto simp: get_repo_info_def send_def Let_def)

lemma get_repo_info_set:
  assumes "fst (get_repo_info E repo au log) = Inr (Some info)" and "gh_set info"
  shows "\<exists>pre second others d.
           py_split_on ''github.com/'' repo = pre # second # others
           \<and> status_code (http E log
                 (Get (''https://api.github.com/repos/'' @ py_rstrip ''/'' second) [] [] au)) = 200
           \<and> response_json E (rtext (http E log
                 (Get (''https://api.github.com/repos/'' @ py_rstrip ''/'' second) [] [] au)))
               = Some (PDict d)
           \<and> info = \<lparr>gh_stars = dict_get d ''stargazers_count'' (PInt 0),
                      gh_forks = dict_get d ''forks_count'' (PInt 0),
                      gh_watchers = dict_get d ''watchers_count'' (PInt 0),
                      gh_set = True, gh_link = repo\<rparr>"
  using assms
  by (auto simp: get_repo_info_def send_def Let_def info_default_def
      split: list.splits if_splits option.splits pyval.splits)

text \<open>
  Claim C3, the code at the failing inputs. For a repository URL with a
  \<^verbatim>\<open>github.com/\<close> segment, \<^verbatim>\<open>get_repo_info\<close> returns \<^verbatim>\<open>None\<close>, not the default dict, when the
  API answers with status 500, and raises the decoding error of \<^verbatim>\<open>r.json()\<close> when the
  API answers 200 with a body that is not JSON; with status 401 it returns the defaults
  with \<^verbatim>\<open>set\<close> false, as the claim says.
\<close>

theorem get_repo_info_status_500:
  "fst (get_repo_info world_500 ''https://github.com/u/foo'' None []) = Inr None
   \<and> fst (get_repo_info world_bad_json ''https://github.com/u/foo'' None []) = Inl JSONDecodeError
   \<and> fst (get_repo_info world_401 ''https://github.com/u/foo'' None []) = Inr (Some info_default)"
  by code_simp

lemma enrich_all_or_nothing:
  "enrich E DEBUG extra authparam lnk pack log = (Inr p, log1) \<Longrightarrow>
     p = pack \<or> (\<exists>info. p = set_gh_info pack info)"
  by (auto simp: enrich_def split: if_splits prod.splits sum.splits option.splits)

lemma enrich_ignores_set_flag:
  "get_github_info E lnk authparam log = (Inr (Some info), log1) \<Longrightarrow>
     enrich E False True authparam lnk pack log = (Inr (set_gh_info pack info), log1)"
  by (simp add: enrich_def)

text \<open>
  Claim C2, the code at the failing input. The package \<open>foo\<close> has a GitHub homepage and
  the API answers 401: the lookup returns the default dict with \<^verbatim>\<open>set\<close> false, yet
  \<^verbatim>\<open>if info\<close> holds for that dict, \<^verbatim>\<open>set_gh_info\<close> runs and the package is yielded with
  \<^verbatim>\<open>info_set\<close> true. With status 500 the lookup returns \<^verbatim>\<open>None\<close> and the package keeps
  \<^verbatim>\<open>info_set\<close> false.
\<close>

theorem search_marks_failed_lookup:
  "fst (get_github_info world_401 ''https://pypi.org/project/foo/'' (Some (None, None)) [])
     = Inr (Some info_default)
   \<and> gh_set info_default = False
   \<and> yielded (search world_401 False ''foo'' (demo_opts True)) = [foo_package\<lparr>info_set := True\<rparr>]
   \<and> yielded (search world_500 False ''foo'' (demo_opts True)) = [foo_package]"
  by code_simp

section \<open>Properties of the link resolver\<close>







end
